theory Spec2Isabelle
  imports Main
begin

section \<open>JavaScript strings and values\<close>

text \<open>
  Strings are lists of code units (\<open>char\<close>, the 8-bit range). The helpers below are the
  \<open>String.prototype\<close> methods that \<open>neovim.js\<close> calls, with the same names where HOL
  has no constant of that name.
\<close>

definition dquote :: char where
  "dquote = CHR 0x22"

definition squote :: char where
  "squote = CHR 0x27"

definition backslash :: char where
  "backslash = CHR 0x5C"

definition newline :: char where
  "newline = CHR 0x0A"

definition is_ws :: "char \<Rightarrow> bool" where
  \<comment> \<open>the white space and line terminators that \<open>trim\<close> strips, below code unit 256\<close>
  "is_ws c = (c \<in> set [CHR 0x09, CHR 0x0A, CHR 0x0B, CHR 0x0C, CHR 0x0D, CHR 0x20, CHR 0xA0])"

definition trim :: "string \<Rightarrow> string" where
  "trim s = rev (dropWhile is_ws (rev (dropWhile is_ws s)))"

definition startsWith :: "string \<Rightarrow> string \<Rightarrow> bool" where
  "startsWith s p = (take (length p) s = p)"

definition endsWith :: "string \<Rightarrow> string \<Rightarrow> bool" where
  "endsWith s p = (length p \<le> length s \<and> drop (length s - length p) s = p)"

definition substring :: "string \<Rightarrow> int \<Rightarrow> int \<Rightarrow> string" where
  \<comment> \<open>\<open>s.substring(a, b)\<close>: both indices clamped to \<open>[0, length]\<close>, swapped when \<open>a > b\<close>\<close>
  "substring s a b =
     (let n = int (length s);
          a' = max 0 (min a n);
          b' = max 0 (min b n);
          lo = min a' b';
          hi = max a' b'
      in take (nat (hi - lo)) (drop (nat lo) s))"

fun split_on :: "char \<Rightarrow> string \<Rightarrow> string list" where
  \<comment> \<open>\<open>s.split(c)\<close> for a one-character separator; never the empty list\<close>
  "split_on c [] = [[]]"
| "split_on c (x # xs) =
     (if x = c then [] # split_on c xs
      else (case split_on c xs of [] \<Rightarrow> [[x]] | y # ys \<Rightarrow> (x # y) # ys))"

definition replace_all :: "char \<Rightarrow> string \<Rightarrow> string \<Rightarrow> string" where
  \<comment> \<open>\<open>s.replace(/c/g, r)\<close> for a one-character pattern\<close>
  "replace_all c r s = concat (map (\<lambda>x. if x = c then r else [x]) s)"

fun join :: "string \<Rightarrow> string list \<Rightarrow> string" where
  "join sep [] = []"
| "join sep [x] = x"
| "join sep (x # y # ys) = x @ sep @ join sep (y # ys)"

fun show_nat :: "nat \<Rightarrow> string" where
  "show_nat n =
     (if n < 10 then [''0123456789'' ! n]
      else show_nat (n div 10) @ [''0123456789'' ! (n mod 10)])"

declare show_nat.simps [simp del]

definition show_int :: "int \<Rightarrow> string" where
  \<comment> \<open>the text of an integer inside a template literal\<close>
  "show_int i = (if i < 0 then CHR ''-'' # show_nat (nat (- i)) else show_nat (nat i))"

text \<open>
  Values that cross the RPC boundary untyped (\<open>nvim.eval\<close>, \<open>nvim.call\<close>, \<open>nvim.lua\<close>
  return \<open>any\<close>). Numbers are the integers; the code reads line and column numbers,
  counts and flags only.
\<close>

datatype jsval =
    Undefined
  | Null
  | JBool bool
  | Num int
  | Str string
  | Arr "jsval list"
  | Obj "(string \<times> jsval) list"

fun truthy :: "jsval \<Rightarrow> bool" where
  "truthy Undefined = False"
| "truthy Null = False"
| "truthy (JBool b) = b"
| "truthy (Num n) = (n \<noteq> 0)"
| "truthy (Str s) = (s \<noteq> [])"
| "truthy (Arr xs) = True"
| "truthy (Obj kvs) = True"

fun js_String :: "jsval \<Rightarrow> string" where
  \<comment> \<open>\<open>String(v)\<close>; inside an array \<open>null\<close> and \<open>undefined\<close> print as the empty string\<close>
  "js_String Undefined = ''undefined''"
| "js_String Null = ''null''"
| "js_String (JBool b) = (if b then ''true'' else ''false'')"
| "js_String (Num n) = show_int n"
| "js_String (Str s) = s"
| "js_String (Arr xs) =
     join '','' (map (\<lambda>x. if x = Undefined \<or> x = Null then [] else js_String x) xs)"
| "js_String (Obj kvs) = ''[object Object]''"

section \<open>Errors\<close>

text \<open>
  What a remote call or the transport can throw: an \<open>Error\<close> with a message, or some
  value that is not an \<open>Error\<close> instance.
\<close>

datatype thrown = ErrorObj string | NonError

text \<open>
  The three error classes of \<open>neovim.js\<close>, with their constructor arguments
  (\<open>socketPath\<close> and \<open>cause\<close>; \<open>command\<close> and \<open>originalError\<close>; \<open>message\<close>), and
  \<open>Uncaught\<close> for a foreign exception travelling through a \<open>try\<close> block.
\<close>

datatype error =
    NeovimConnectionError string error
  | NeovimCommandError string string
  | NeovimValidationError string
  | Uncaught thrown

fun message :: "error \<Rightarrow> string option" where
  \<comment> \<open>\<open>error.message\<close> when \<open>error instanceof Error\<close>, the constructors' \<open>super(...)\<close> texts\<close>
  "message (NeovimConnectionError socketPath cause) =
     Some (''Failed to connect to Neovim at '' @ socketPath
           @ ''. Is Neovim running with --listen '' @ socketPath @ ''?'')"
| "message (NeovimCommandError command originalError) =
     Some (''Failed to execute command '' @ [squote] @ command @ [squote] @ '': ''
           @ originalError)"
| "message (NeovimValidationError m) = Some m"
| "message (Uncaught (ErrorObj m)) = Some m"
| "message (Uncaught NonError) = None"

definition message_or_unknown :: "error \<Rightarrow> string" where
  \<comment> \<open>\<open>error instanceof Error ? error.message : 'Unknown error'\<close>\<close>
  "message_or_unknown e = (case message e of Some m \<Rightarrow> m | None \<Rightarrow> ''Unknown error'')"

section \<open>The process environment and the remote editor\<close>

text \<open>
  The primitive remote calls of the \<open>neovim\<close> client that the bridge issues. A buffer
  handle is the position of the buffer in the editor's buffer list.
\<close>

datatype rpc =
    Eval string
  | Command string
  | Call string "jsval list"
  | Lua string
  | SetVvar string jsval
  | GetVvar string
  | GetCurrentWin
  | WinGetCursor
  | WinSetCursor int int
  | GetMode
  | GetCurrentBuf
  | ListBufs
  | BufGetName nat
  | BufLineCount nat
  | BufGetLines nat
  | BufSetLines nat int int bool "string list"
  | GetCurrentTabpage
  | TabpageGetNumber

datatype event = Attach string | Request rpc

record buffer =
  buf_name :: string
  buf_lines :: "string list"

text \<open>
  Everything outside the bridge. The two environment variables and the transport are
  read by \<open>connect\<close>. The editor is external to the repository; it is modelled by the
  part of Neovim's documented behaviour that the operations below touch:
  \<^item> \<open>:mark x\<close> sets mark \<open>x\<close> at the cursor line, column 0;
  \<open>getpos("'x")\<close> answers \<open>[0, line, column + 1, 0]\<close>, and \<open>[0, 0, 0, 0]\<close> for a mark
  that is not set;
  \<^item> \<open>nvim_win_set_cursor\<close> takes a 1-based line inside the buffer and a 0-based column;
  \<^item> \<open>nvim_buf_set_lines\<close> replaces the lines \<open>[start, end)\<close>, and a buffer never has
  fewer than one line: deleting every line leaves one empty line;
  \<^item> every other request leaves this state alone and is answered from the tables
  \<open>eval_answer\<close>, \<open>call_answer\<close>, \<open>lua_answer\<close>.
  Any request can fail: \<open>faults w n r\<close> is what request \<open>r\<close> throws when it is the
  \<open>n\<close>-th event of the session, if it throws. \<open>trace\<close> records every transport attach
  and every request that reached the editor, in order.
\<close>

record world =
  NVIM_SOCKET_PATH :: "string option"
  ALLOW_SHELL_COMMANDS :: "string option"
  attach_throws :: "string \<Rightarrow> thrown option"
  faults :: "nat \<Rightarrow> rpc \<Rightarrow> thrown option"
  eval_answer :: "string \<Rightarrow> jsval"
  call_answer :: "string \<Rightarrow> jsval list \<Rightarrow> jsval"
  lua_answer :: "string \<Rightarrow> jsval"
  exec_errmsg :: "string \<Rightarrow> string"
  errmsg :: jsval
  buffers :: "buffer list"
  current :: nat
  win_cursor :: "int \<times> int"
  mark_table :: "char \<Rightarrow> (int \<times> int) option"
  editor_mode :: string
  tab_number :: int
  trace :: "event list"

type_synonym 'a remote = "world \<Rightarrow> (thrown + 'a) \<times> world"

type_synonym 'a io = "world \<Rightarrow> (error + 'a) \<times> world"

definition request :: "rpc \<Rightarrow> 'a remote \<Rightarrow> 'a remote" where
  \<comment> \<open>send request \<open>r\<close>: it is recorded, then it fails as scheduled or the editor serves it\<close>
  "request r serve w =
     (let w' = w\<lparr>trace := trace w @ [Request r]\<rparr>
      in case faults w (length (trace w)) r of
           Some t \<Rightarrow> (Inl t, w')
         | None \<Rightarrow> serve w')"

subsection \<open>Sequencing, \<open>await\<close>, \<open>try\<close>/\<open>catch\<close>\<close>

definition ret :: "'a \<Rightarrow> 'a io" where
  "ret x w = (Inr x, w)"

definition throw :: "error \<Rightarrow> 'a io" where
  "throw e w = (Inl e, w)"

definition and_then :: "'a io \<Rightarrow> ('a \<Rightarrow> 'b io) \<Rightarrow> 'b io" where
  "and_then m f w = (case m w of (Inl e, w') \<Rightarrow> (Inl e, w') | (Inr x, w') \<Rightarrow> f x w')"

definition try_catch :: "'a io \<Rightarrow> (error \<Rightarrow> 'a io) \<Rightarrow> 'a io" where
  "try_catch m h w = (case m w of (Inl e, w') \<Rightarrow> h e w' | (Inr x, w') \<Rightarrow> (Inr x, w'))"

definition await :: "'a remote \<Rightarrow> 'a io" where
  \<comment> \<open>a rejected promise is thrown at the \<open>await\<close>\<close>
  "await m w = (case m w of (Inl t, w') \<Rightarrow> (Inl (Uncaught t), w') | (Inr x, w') \<Rightarrow> (Inr x, w'))"

definition lift :: "thrown + 'a \<Rightarrow> 'a io" where
  \<comment> \<open>a local computation that may throw (a \<open>TypeError\<close>)\<close>
  "lift r w = (case r of Inl t \<Rightarrow> (Inl (Uncaught t), w) | Inr x \<Rightarrow> (Inr x, w))"


section \<open>Calls of the \<open>neovim\<close> client\<close>

definition lowercase :: string where
  "lowercase = ''abcdefghijklmnopqrstuvwxyz''"

definition getpos_expr :: "char \<Rightarrow> string" where
  \<comment> \<open>the text of \<open>getpos("'m")\<close>\<close>
  "getpos_expr m = ''getpos('' @ [dquote, squote, m, dquote] @ '')''"

definition getpos :: "char \<Rightarrow> world \<Rightarrow> jsval" where
  "getpos m w =
     (case mark_table w m of
        None \<Rightarrow> Arr [Num 0, Num 0, Num 0, Num 0]
      | Some (l, c) \<Rightarrow> Arr [Num 0, Num l, Num (c + 1), Num 0])"

definition nvim_eval :: "string \<Rightarrow> jsval remote" where
  "nvim_eval expr =
     request (Eval expr)
       (\<lambda>w. (Inr (case find (\<lambda>m. expr = getpos_expr m) lowercase of
                     Some m \<Rightarrow> getpos m w
                   | None \<Rightarrow> eval_answer w expr), w))"

definition mark_command :: "string \<Rightarrow> char option" where
  \<comment> \<open>the mark named by the Ex command \<open>mark x\<close>, for a lowercase \<open>x\<close>\<close>
  "mark_command c =
     (if length c = 6 \<and> take 5 c = ''mark '' \<and> c ! 5 \<in> set lowercase
      then Some (c ! 5) else None)"

definition nvim_command :: "string \<Rightarrow> unit remote" where
  "nvim_command c =
     request (Command c)
       (\<lambda>w. (Inr (), (case mark_command c of
                        Some m \<Rightarrow> w\<lparr>mark_table := (mark_table w)(m \<mapsto> (fst (win_cursor w), 0))\<rparr>
                      | None \<Rightarrow> w)))"

definition nvim_call :: "string \<Rightarrow> jsval list \<Rightarrow> jsval remote" where
  \<comment> \<open>\<open>execute\<close> leaves the error message of its command, if any, in \<open>v:errmsg\<close>\<close>
  "nvim_call f args =
     request (Call f args)
       (\<lambda>w. (Inr (call_answer w f args),
             (case args of
                [Str c] \<Rightarrow>
                  if f = ''execute'' \<and> exec_errmsg w c \<noteq> []
                  then w\<lparr>errmsg := Str (exec_errmsg w c)\<rparr> else w
              | _ \<Rightarrow> w)))"

definition nvim_lua :: "string \<Rightarrow> jsval remote" where
  "nvim_lua code = request (Lua code) (\<lambda>w. (Inr (lua_answer w code), w))"

definition nvim_setVvar :: "string \<Rightarrow> jsval \<Rightarrow> unit remote" where
  "nvim_setVvar name v =
     request (SetVvar name v)
       (\<lambda>w. (Inr (), (if name = ''errmsg'' then w\<lparr>errmsg := v\<rparr> else w)))"

definition nvim_getVvar :: "string \<Rightarrow> jsval remote" where
  "nvim_getVvar name =
     request (GetVvar name)
       (\<lambda>w. (Inr (if name = ''errmsg'' then errmsg w else call_answer w ''getVvar'' [Str name]), w))"

definition nvim_window :: "unit remote" where
  "nvim_window = request GetCurrentWin (\<lambda>w. (Inr (), w))"

definition window_cursor :: "(int \<times> int) remote" where
  "window_cursor = request WinGetCursor (\<lambda>w. (Inr (win_cursor w), w))"

definition current_lines :: "world \<Rightarrow> string list" where
  "current_lines w = (if current w < length (buffers w) then buf_lines (buffers w ! current w) else [])"

definition win_set_cursor :: "int \<Rightarrow> int \<Rightarrow> unit remote" where
  "win_set_cursor line col =
     request (WinSetCursor line col)
       (\<lambda>w. if 1 \<le> line \<and> line \<le> int (length (current_lines w)) \<and> 0 \<le> col
            then (Inr (), w\<lparr>win_cursor :=
                    (line, min col (max 0 (int (length (current_lines w ! nat (line - 1))) - 1)))\<rparr>)
            else (Inl (ErrorObj ''Cursor position outside buffer''), w))"

definition set_window_cursor :: "int \<Rightarrow> int \<Rightarrow> unit io" where
  \<comment> \<open>\<open>window.cursor = [line, col]\<close>: the setter sends the request and drops its promise,
      so the value awaited is the array and a failure of the request is not thrown here\<close>
  "set_window_cursor line col w = (Inr (), snd (win_set_cursor line col w))"

definition nvim_mode :: "string remote" where
  "nvim_mode = request GetMode (\<lambda>w. (Inr (editor_mode w), w))"

definition nvim_buffer :: "nat remote" where
  "nvim_buffer = request GetCurrentBuf (\<lambda>w. (Inr (current w), w))"

definition nvim_buffers :: "nat list remote" where
  "nvim_buffers = request ListBufs (\<lambda>w. (Inr [0..<length (buffers w)], w))"

definition on_buffer :: "nat \<Rightarrow> (buffer \<Rightarrow> 'a) \<Rightarrow> world \<Rightarrow> (thrown + 'a) \<times> world" where
  "on_buffer b f w =
     (if b < length (buffers w) then (Inr (f (buffers w ! b)), w)
      else (Inl (ErrorObj ''Invalid buffer id''), w))"

definition buffer_name :: "nat \<Rightarrow> string remote" where
  "buffer_name b = request (BufGetName b) (on_buffer b buf_name)"

definition buffer_length :: "nat \<Rightarrow> int remote" where
  "buffer_length b = request (BufLineCount b) (on_buffer b (\<lambda>x. int (length (buf_lines x))))"

definition buffer_lines :: "nat \<Rightarrow> string list remote" where
  "buffer_lines b = request (BufGetLines b) (on_buffer b buf_lines)"

definition normalize_index :: "int \<Rightarrow> int \<Rightarrow> int" where
  \<comment> \<open>a negative index counts from one past the last line\<close>
  "normalize_index len i = (if i < 0 then len + 1 + i else i)"

definition set_lines :: "int \<Rightarrow> int \<Rightarrow> bool \<Rightarrow> string list \<Rightarrow> string list \<Rightarrow> thrown + string list" where
  \<comment> \<open>\<open>nvim_buf_set_lines\<close> on the lines \<open>ls\<close> of a buffer\<close>
  "set_lines start end strict replacement ls =
     (let len = int (length ls);
          s = normalize_index len start;
          e = normalize_index len end;
          oob = (s < 0 \<or> len < s \<or> e < 0 \<or> len < e);
          s' = max 0 (min s len);
          e' = max 0 (min e len)
      in if strict \<and> oob then Inl (ErrorObj ''Index out of bounds'')
         else if e' < s' then Inl (ErrorObj ''start is higher than end'')
         else if \<exists>l \<in> set replacement. newline \<in> set l
           then Inl (ErrorObj ''String cannot contain newlines'')
         else (let ls' = take (nat s') ls @ replacement @ drop (nat e') ls
               in Inr (if ls' = [] then [[]] else ls')))"

definition buffer_setLines :: "nat \<Rightarrow> string list \<Rightarrow> int \<Rightarrow> int \<Rightarrow> bool \<Rightarrow> unit remote" where
  "buffer_setLines b replacement start end strict =
     request (BufSetLines b start end strict replacement)
       (\<lambda>w. if b < length (buffers w)
            then (case set_lines start end strict replacement (buf_lines (buffers w ! b)) of
                    Inl t \<Rightarrow> (Inl t, w)
                  | Inr ls' \<Rightarrow>
                      (Inr (), w\<lparr>buffers := (buffers w)[b := (buffers w ! b)\<lparr>buf_lines := ls'\<rparr>]\<rparr>))
            else (Inl (ErrorObj ''Invalid buffer id''), w))"

definition buffer_insert :: "nat \<Rightarrow> string list \<Rightarrow> int \<Rightarrow> unit remote" where
  \<comment> \<open>\<open>Buffer.insert(lines, start)\<close> of the client\<close>
  "buffer_insert b ls start = buffer_setLines b ls start start True"

definition buffer_remove :: "nat \<Rightarrow> int \<Rightarrow> int \<Rightarrow> bool \<Rightarrow> unit remote" where
  \<comment> \<open>\<open>Buffer.remove(start, end, strictIndexing)\<close> of the client\<close>
  "buffer_remove b start end strict = buffer_setLines b [] start end strict"

definition buffer_replace :: "nat \<Rightarrow> string list \<Rightarrow> int \<Rightarrow> unit remote" where
  \<comment> \<open>\<open>Buffer.replace(lines, start)\<close> of the client\<close>
  "buffer_replace b ls start = buffer_setLines b ls start (start + int (length ls)) False"

definition nvim_tabpage :: "unit remote" where
  "nvim_tabpage = request GetCurrentTabpage (\<lambda>w. (Inr (), w))"

definition tabpage_number :: "int remote" where
  "tabpage_number = request TabpageGetNumber (\<lambda>w. (Inr (tab_number w), w))"

section \<open>The bridge: \<open>NeovimManager\<close>\<close>

definition socketPath :: "world \<Rightarrow> string" where
  \<comment> \<open>\<open>process.env.NVIM_SOCKET_PATH || '/tmp/nvim'\<close>\<close>
  "socketPath w =
     (case NVIM_SOCKET_PATH w of
        None \<Rightarrow> ''/tmp/nvim''
      | Some p \<Rightarrow> if p = [] then ''/tmp/nvim'' else p)"

definition validateSocketPath :: "string \<Rightarrow> unit io" where
  "validateSocketPath path =
     (if path = [] \<or> length (trim path) = 0
      then throw (NeovimValidationError ''Socket path cannot be empty'')
      else ret ())"

definition attach :: "string \<Rightarrow> unit io" where
  \<comment> \<open>the client library's \<open>attach({socket})\<close>; the handle it returns is the session\<close>
  "attach path w =
     (let w' = w\<lparr>trace := trace w @ [Attach path]\<rparr>
      in case attach_throws w path of
           Some t \<Rightarrow> (Inl (Uncaught t), w')
         | None \<Rightarrow> (Inr (), w'))"

definition connect :: "unit io" where
  "connect w =
     and_then (validateSocketPath (socketPath w))
       (\<lambda>_. try_catch (attach (socketPath w))
               (\<lambda>error. throw (NeovimConnectionError (socketPath w) error))) w"

definition mark_name_ok :: "string \<Rightarrow> bool" where
  \<comment> \<open>\<open>/^[a-z]$/.test(mark)\<close>\<close>
  "mark_name_ok mark = (case mark of [c] \<Rightarrow> c \<in> set lowercase | _ \<Rightarrow> False)"

definition setMark :: "string \<Rightarrow> int \<Rightarrow> int \<Rightarrow> string io" where
  "setMark mark line col =
     (if \<not> mark_name_ok mark then ret ''Invalid mark name (must be a-z)''
      else try_catch
        (and_then connect (\<lambda>nvim.
         and_then (await (nvim_command (''mark '' @ mark))) (\<lambda>_.
         and_then (await nvim_window) (\<lambda>window.
         and_then (set_window_cursor line col) (\<lambda>_.
         ret (''Mark '' @ mark @ '' set at line '' @ show_int line
              @ '', column '' @ show_int col))))))
        (\<lambda>error. ret ''Error setting mark''))"


fun find_buffer :: "string \<Rightarrow> nat list \<Rightarrow> nat option io" where
  \<comment> \<open>the loop of \<open>getBufferContents\<close> over \<open>nvim.buffers\<close>, leaving at the first match\<close>
  "find_buffer filename [] = ret None"
| "find_buffer filename (buf # rest) =
     and_then (await (buffer_name buf)) (\<lambda>bufName.
       if bufName = filename \<or> endsWith bufName filename then ret (Some buf)
       else find_buffer filename rest)"

definition lineMap :: "string list \<Rightarrow> (nat \<times> string) list" where
  \<comment> \<open>the \<open>Map\<close> built by \<open>lines.forEach((line, index) => lineMap.set(index + 1, line))\<close>,
      in insertion order\<close>
  "lineMap ls = zip [1..<Suc (length ls)] ls"

definition getBufferContents :: "string option \<Rightarrow> (nat \<times> string) list io" where
  "getBufferContents filename =
     try_catch
       (and_then connect (\<lambda>nvim.
        and_then
          (case filename of
             Some name \<Rightarrow>
               if name \<noteq> [] then
                 and_then (await nvim_buffers) (\<lambda>bufs.
                 and_then (find_buffer name bufs) (\<lambda>targetBuffer.
                   case targetBuffer of
                     None \<Rightarrow> throw (NeovimValidationError (''Buffer not found: '' @ name))
                   | Some buf \<Rightarrow> ret buf))
               else await nvim_buffer
           | None \<Rightarrow> await nvim_buffer) (\<lambda>buffer.
        and_then (await (buffer_lines buffer)) (\<lambda>ls.
        ret (lineMap ls)))))
       (\<lambda>error. case error of
                  NeovimValidationError m \<Rightarrow> throw error
                | _ \<Rightarrow> ret [])"

definition shell_disabled_message :: string where
  "shell_disabled_message =
     ''Shell command execution is disabled. Set ALLOW_SHELL_COMMANDS=true environment variable to enable shell commands.''"

definition blank :: "string \<Rightarrow> bool" where
  \<comment> \<open>\<open>!s || s.trim().length === 0\<close>\<close>
  "blank s = (s = [] \<or> length (trim s) = 0)"

definition normalizedCommand :: "string \<Rightarrow> string" where
  \<comment> \<open>\<open>command.startsWith(':') ? command.substring(1) : command\<close>\<close>
  "normalizedCommand command = (if startsWith command '':'' then drop 1 command else command)"

definition system_expr :: "string \<Rightarrow> string" where
  \<comment> \<open>the text of \<open>system('...')\<close> with single quotes doubled\<close>
  "system_expr shellCommand =
     ''system('' @ [squote] @ replace_all squote [squote, squote] shellCommand @ [squote] @ '')''"

definition sendCommand :: "string \<Rightarrow> string io" where
  "sendCommand command =
     (if blank command then throw (NeovimValidationError ''Command cannot be empty'')
      else try_catch
        (and_then connect (\<lambda>nvim w.
           if startsWith (normalizedCommand command) ''!'' then
             (if ALLOW_SHELL_COMMANDS w \<noteq> Some ''true'' then ret shell_disabled_message w
              else (let shellCommand = trim (drop 1 (normalizedCommand command))
                    in if shellCommand = []
                       then throw (NeovimValidationError ''Shell command cannot be empty'') w
                       else try_catch
                         (and_then (await (nvim_eval (system_expr shellCommand))) (\<lambda>output.
                            if truthy output then ret (trim (js_String output))
                            else ret ''No output from command''))
                         (\<lambda>error. throw (NeovimCommandError (''!'' @ shellCommand)
                                            (message_or_unknown error))) w))
           else
             and_then (await (nvim_setVvar ''errmsg'' (Str []))) (\<lambda>_.
             and_then (await (nvim_call ''execute'' [Str (normalizedCommand command)])) (\<lambda>output.
             and_then (await (nvim_getVvar ''errmsg'')) (\<lambda>vimerr.
               if truthy vimerr
               then throw (NeovimCommandError (normalizedCommand command) (js_String vimerr))
               else ret (if truthy output then trim (js_String output)
                         else ''Command executed (no output)'')))) w))
        (\<lambda>error. case error of
                   NeovimCommandError c m \<Rightarrow> throw error
                 | NeovimValidationError m \<Rightarrow> throw error
                 | _ \<Rightarrow> throw (NeovimCommandError command (message_or_unknown error))))"

definition vim_command :: "string \<Rightarrow> world \<Rightarrow> string \<times> world" where
  \<comment> \<open>the handler of the \<open>vim_command\<close> tool in \<open>index.ts\<close>; the result is the text of
      its one content item\<close>
  "vim_command command w =
     (if startsWith command ''!'' \<and> ALLOW_SHELL_COMMANDS w \<noteq> Some ''true''
      then (shell_disabled_message, w)
      else (case sendCommand command w of
              (Inr result, w') \<Rightarrow> (result, w')
            | (Inl error, w') \<Rightarrow>
                ((case message error of Some m \<Rightarrow> m | None \<Rightarrow> ''Error executing command''), w')))"

definition editLines :: "int \<Rightarrow> string \<Rightarrow> string \<Rightarrow> string io" where
  "editLines startLine emode newText =
     try_catch
       (and_then connect (\<lambda>nvim.
        let splitByLines = split_on newline newText in
        and_then (await nvim_buffer) (\<lambda>buffer.
          if emode = ''replaceAll'' then
            and_then (await (buffer_length buffer)) (\<lambda>lineCount.
            and_then (await (buffer_remove buffer 0 lineCount True)) (\<lambda>_.
            and_then (await (buffer_insert buffer splitByLines 0)) (\<lambda>_.
            ret ''Buffer completely replaced'')))
          else if emode = ''replace'' then
            and_then (await (buffer_replace buffer splitByLines (startLine - 1))) (\<lambda>_.
            ret ''Lines replaced successfully'')
          else if emode = ''insert'' then
            and_then (await (buffer_insert buffer splitByLines (startLine - 1))) (\<lambda>_.
            ret ''Lines inserted successfully'')
          else ret ''Invalid mode specified'')))
       (\<lambda>error. ret ''Error editing lines'')"

record searchOptions =
  ignoreCase :: bool
  wholeWord :: bool
  global :: bool
  confirm :: bool

fun js_get :: "jsval \<Rightarrow> string \<Rightarrow> thrown + jsval" where
  \<comment> \<open>\<open>v.key\<close> for the keys the code reads (\<open>total\<close>, \<open>incomplete\<close>, \<open>name\<close>), which only
      an object can have\<close>
  "js_get Undefined key = Inl (ErrorObj ''Cannot read properties of undefined'')"
| "js_get Null key = Inl (ErrorObj ''Cannot read properties of null'')"
| "js_get (Obj kvs) key = Inr (case map_of kvs key of Some v \<Rightarrow> v | None \<Rightarrow> Undefined)"
| "js_get v key = Inr Undefined"

definition searchcount_expr :: "string \<Rightarrow> string" where
  \<comment> \<open>the text of \<open>searchcount({"pattern": "...", "maxcount": 100})\<close>, double quotes of the
      pattern preceded by a backslash\<close>
  "searchcount_expr pat =
     ''searchcount({'' @ [dquote] @ ''pattern'' @ [dquote] @ '': '' @ [dquote]
     @ replace_all dquote [backslash, dquote] pat
     @ [dquote] @ '', '' @ [dquote] @ ''maxcount'' @ [dquote] @ '': 100})''"

definition searchPattern :: "string \<Rightarrow> searchOptions \<Rightarrow> string" where
  \<comment> \<open>the pattern, between Vim's word-boundary atoms for a whole-word search\<close>
  "searchPattern pattern options =
     (if wholeWord options then [backslash] @ ''<'' @ pattern @ [backslash] @ ''>''
      else pattern)"

definition searchInBuffer :: "string \<Rightarrow> searchOptions \<Rightarrow> string io" where
  "searchInBuffer pattern options =
     (if blank pattern then throw (NeovimValidationError ''Search pattern cannot be empty'')
      else try_catch
        (and_then connect (\<lambda>nvim.
         and_then (if ignoreCase options then await (nvim_command ''set ignorecase'')
                   else await (nvim_command ''set noignorecase'')) (\<lambda>_.
         and_then (await (nvim_eval (searchcount_expr (searchPattern pattern options))))
           (\<lambda>matchInfo.
         and_then (lift (js_get matchInfo ''total'')) (\<lambda>total.
           if total = Num 0 then ret (''No matches found for: '' @ pattern)
           else
             and_then (await (nvim_command (''/'' @ searchPattern pattern options))) (\<lambda>_.
             and_then (lift (js_get matchInfo ''incomplete'')) (\<lambda>incomplete.
             ret (''Found '' @ js_String total @ '' matches for: '' @ pattern
                  @ (if truthy incomplete then '' (showing first 100)'' else [])))))))))
        (\<lambda>error. throw (NeovimCommandError (''search for '' @ pattern)
                           (message_or_unknown error))))"





section \<open>\<open>getNeovimStatus\<close>\<close>

record neovimStatus =
  cursorPosition :: "int \<times> int"
  mode :: string
  visualSelection :: string
  fileName :: string
  windowLayout :: jsval  \<comment> \<open>the value whose \<open>JSON.stringify\<close> text the field holds\<close>
  currentTab :: int
  marks :: "(char \<times> jsval \<times> jsval) list"
  registers :: "(string \<times> string) list"
  cwd :: jsval
  lspInfo :: string
  pluginInfo :: string

datatype status_result = Status neovimStatus | StatusText string

fun js_at :: "jsval \<Rightarrow> nat \<Rightarrow> thrown + jsval" where
  \<comment> \<open>\<open>v[i]\<close>\<close>
  "js_at Undefined i = Inl (ErrorObj ''Cannot read properties of undefined'')"
| "js_at Null i = Inl (ErrorObj ''Cannot read properties of null'')"
| "js_at (Arr xs) i = Inr (if i < length xs then xs ! i else Undefined)"
| "js_at (Str s) i = Inr (if i < length s then Str [s ! i] else Undefined)"
| "js_at (Obj kvs) i = Inr (case map_of kvs (show_nat i) of Some v \<Rightarrow> v | None \<Rightarrow> Undefined)"
| "js_at v i = Inr Undefined"

fun js_gt0 :: "jsval \<Rightarrow> bool" where
  \<comment> \<open>\<open>v > 0\<close> for the values without a text to parse; the editor answers positions with
      numbers\<close>
  "js_gt0 (Num n) = (0 < n)"
| "js_gt0 (JBool b) = b"
| "js_gt0 v = False"

fun marks_loop :: "string \<Rightarrow> (char \<times> jsval \<times> jsval) list \<Rightarrow> (char \<times> jsval \<times> jsval) list io" where
  \<comment> \<open>\<open>for (const mark of 'abc...z')\<close>, the object \<open>marks\<close> as the list of its entries\<close>
  "marks_loop [] acc = ret acc"
| "marks_loop (mark # rest) acc =
     and_then
       (try_catch
          (and_then (await (nvim_eval (getpos_expr mark))) (\<lambda>pos.
           and_then (lift (js_at pos 1)) (\<lambda>l.
             if js_gt0 l then
               and_then (lift (js_at pos 2)) (\<lambda>c.
                 ret (if js_gt0 c then acc @ [(mark, l, c)] else acc))
             else ret acc)))
          (\<lambda>e. ret acc))
       (marks_loop rest)"

definition registerNames :: "string list" where
  \<comment> \<open>\<open>[...'abc...z', '"', ...Array(10).keys()]\<close>, each as the text interpolated for it\<close>
  "registerNames = map (\<lambda>c. [c]) lowercase @ [[dquote]] @ map show_nat [0..<10]"

definition getreg_expr :: "string \<Rightarrow> string" where
  "getreg_expr reg = ''getreg('' @ [squote] @ reg @ [squote] @ '')''"

fun registers_loop :: "string list \<Rightarrow> (string \<times> string) list \<Rightarrow> (string \<times> string) list io" where
  "registers_loop [] acc = ret acc"
| "registers_loop (reg # rest) acc =
     and_then
       (try_catch
          (and_then (await (nvim_eval (getreg_expr reg))) (\<lambda>v.
             let content = js_String v in
             ret (if content \<noteq> [] \<and> 0 < length (trim content)
                  then acc @ [(reg, content)] else acc)))
          (\<lambda>e. ret acc))
       (registers_loop rest)"

definition lsp_expr :: string where
  "lsp_expr = ''luaeval('' @ [dquote] @ ''vim.lsp.get_clients()'' @ [dquote] @ '')''"

fun client_names :: "jsval list \<Rightarrow> thrown + jsval list" where
  \<comment> \<open>\<open>lspClients.map((client) => client.name || 'unknown')\<close>\<close>
  "client_names [] = Inr []"
| "client_names (client # rest) =
     (case js_get client ''name'' of
        Inl t \<Rightarrow> Inl t
      | Inr n \<Rightarrow>
          (case client_names rest of
             Inl t \<Rightarrow> Inl t
           | Inr ns \<Rightarrow> Inr ((if truthy n then n else Str ''unknown'') # ns)))"

definition get_lspInfo :: "string io" where
  "get_lspInfo =
     try_catch
       (and_then (await (nvim_eval lsp_expr)) (\<lambda>lspClients.
          case lspClients of
            Arr cs \<Rightarrow>
              if 0 < length cs then
                and_then (lift (client_names cs)) (\<lambda>names.
                ret (''Active LSP clients: '' @ join '', '' (map js_String names)))
              else ret ''No active LSP clients''
          | _ \<Rightarrow> ret ''No active LSP clients''))
       (\<lambda>e. ret ''LSP information unavailable'')"

definition exists_expr :: "string \<Rightarrow> string" where
  "exists_expr name = ''exists('' @ [dquote] @ name @ [dquote] @ '')''"

definition get_pluginInfo :: "string io" where
  "get_pluginInfo =
     try_catch
       (and_then (await (nvim_eval (exists_expr '':LspInfo''))) (\<lambda>hasLsp.
        and_then (await (nvim_eval (exists_expr '':Telescope''))) (\<lambda>hasTelescope.
        and_then (await (nvim_eval (exists_expr ''g:loaded_nvim_treesitter''))) (\<lambda>hasTreesitter.
        and_then (await (nvim_eval (exists_expr ''g:loaded_completion''))) (\<lambda>hasCompletion.
          let plugins = (if truthy hasLsp then [''LSP''] else [])
                      @ (if truthy hasTelescope then [''Telescope''] else [])
                      @ (if truthy hasTreesitter then [''TreeSitter''] else [])
                      @ (if truthy hasCompletion then [''Completion''] else [])
          in ret (if 0 < length plugins then ''Detected plugins: '' @ join '', '' plugins
                  else ''No common plugins detected''))))))
       (\<lambda>e. ret ''Plugin information unavailable'')"

definition visual_lua :: string where
  \<comment> \<open>the Lua chunk that yanks the selection and restores the unnamed register\<close>
  "visual_lua = join [newline]
     [[],
      ''            local mode = vim.fn.visualmode()'',
      ''            if mode == '' @ [squote] @ [squote] @ '' then'',
      ''              return '' @ [squote] @ [squote],
      ''            end'',
      ''            '',
      ''            -- Save current register content'',
      ''            local save_reg = vim.fn.getreg('' @ [squote] @ [dquote] @ [squote] @ '')'',
      ''            local save_regtype = vim.fn.getregtype('' @ [squote] @ [dquote] @ [squote] @ '')'',
      ''            '',
      ''            -- Yank the visual selection to unnamed register'',
      ''            vim.cmd('' @ [squote] @ ''normal! '' @ [dquote] @ ''vy'' @ [squote] @ '')'',
      ''            '',
      ''            -- Get the yanked text'',
      ''            local selected_text = vim.fn.getreg('' @ [squote] @ [dquote] @ [squote] @ '')'',
      ''            '',
      ''            -- Restore the register'',
      ''            vim.fn.setreg('' @ [squote] @ [dquote] @ [squote] @ '', save_reg, save_regtype)'',
      ''            '',
      ''            return selected_text'',
      ''          '']"

text \<open>
  The fallback of the selection reads three answers of \<open>eval\<close> at the types Vim gives them:
  a position is a list of four numbers, \<open>getline(n)\<close> a string, \<open>getline(a, b)\<close> a list
  of strings. On an answer of another type the model takes the \<open>catch\<close> branch.
\<close>

definition as_position :: "jsval \<Rightarrow> thrown + int \<times> int" where
  "as_position v =
     (case v of
        Arr (b # Num l # Num c # rest) \<Rightarrow> Inr (l, c)
      | _ \<Rightarrow> Inl (ErrorObj ''TypeError''))"

definition as_string :: "jsval \<Rightarrow> thrown + string" where
  "as_string v = (case v of Str s \<Rightarrow> Inr s | _ \<Rightarrow> Inl (ErrorObj ''TypeError''))"

fun as_strings :: "jsval list \<Rightarrow> thrown + string list" where
  "as_strings [] = Inr []"
| "as_strings (Str s # rest) =
     (case as_strings rest of Inl t \<Rightarrow> Inl t | Inr ss \<Rightarrow> Inr (s # ss))"
| "as_strings (v # rest) = Inl (ErrorObj ''TypeError'')"

definition getline_expr :: "int \<Rightarrow> string" where
  "getline_expr n = ''getline('' @ show_int n @ '')''"

definition getline2_expr :: "int \<Rightarrow> int \<Rightarrow> string" where
  "getline2_expr a b = ''getline('' @ show_int a @ '', '' @ show_int b @ '')''"

definition multiline_selection :: "string list \<Rightarrow> int \<Rightarrow> int \<Rightarrow> string" where
  \<comment> \<open>first line from the start column, middle lines whole, last line up to the end column\<close>
  "multiline_selection ls startCol endCol =
     (if 0 < length ls then
        join [newline]
          ([substring (ls ! 0) startCol (int (length (ls ! 0)))]
           @ map (\<lambda>i. ls ! i) [1..<length ls - 1]
           @ (if 1 < length ls then [substring (ls ! (length ls - 1)) 0 endCol] else []))
      else [])"

definition selection_fallback :: "string io" where
  \<comment> \<open>the inner \<open>try\<close> with \<open>getpos\<close> and \<open>getline\<close>\<close>
  "selection_fallback =
     try_catch
       (and_then (await (nvim_eval (getpos_expr CHR ''<''))) (\<lambda>vstart.
        and_then (await (nvim_eval (getpos_expr CHR ''>''))) (\<lambda>vend.
        and_then (lift (as_position vstart)) (\<lambda>(startLine, startPos).
        and_then (lift (as_position vend)) (\<lambda>(endLine, endPos).
          if startLine = endLine then
            and_then (await (nvim_eval (getline_expr startLine))) (\<lambda>v.
            and_then (lift (as_string v)) (\<lambda>line.
            ret (substring line (startPos - 1) endPos)))
          else
            and_then (await (nvim_eval (getline2_expr startLine endLine))) (\<lambda>v.
              case v of
                Arr vs \<Rightarrow>
                  and_then (lift (as_strings vs)) (\<lambda>ls.
                  ret (multiline_selection ls (startPos - 1) endPos))
              | _ \<Rightarrow> ret []))))))
       (\<lambda>e2. ret [])"

definition get_visualSelection :: "string io" where
  "get_visualSelection =
     try_catch
       (and_then (await (nvim_lua visual_lua)) (\<lambda>visualText.
        ret (js_String (if truthy visualText then visualText else Str []))))
       (\<lambda>e. selection_fallback)"

definition collect_status :: "status_result io" where
  \<comment> \<open>the \<open>try\<close> block of \<open>getNeovimStatus\<close> after \<open>connect\<close>\<close>
  "collect_status =
     and_then (await nvim_window) (\<lambda>window.
     and_then (await window_cursor) (\<lambda>cursor.
     and_then (await nvim_mode) (\<lambda>mode.
     and_then (await nvim_buffer) (\<lambda>buffer.
     and_then (await (nvim_eval ''winlayout()'')) (\<lambda>layout.
     and_then (await nvim_tabpage) (\<lambda>tabpage.
     and_then (await tabpage_number) (\<lambda>currentTab.
     and_then (marks_loop lowercase []) (\<lambda>marks.
     and_then (registers_loop registerNames []) (\<lambda>registers.
     and_then (await (nvim_call ''getcwd'' [])) (\<lambda>cwd.
     and_then get_lspInfo (\<lambda>lspInfo.
     and_then get_pluginInfo (\<lambda>pluginInfo.
     and_then (await (buffer_name buffer)) (\<lambda>fileName.
     let neovimStatus =
           \<lparr>cursorPosition = cursor, mode = mode, visualSelection = [],
            fileName = fileName, windowLayout = layout, currentTab = currentTab,
            marks = marks, registers = registers, cwd = cwd,
            lspInfo = lspInfo, pluginInfo = pluginInfo\<rparr> in
     if startsWith mode ''v'' then
       and_then get_visualSelection (\<lambda>selection.
       ret (Status (neovimStatus\<lparr>visualSelection := selection\<rparr>)))
     else ret (Status neovimStatus))))))))))))))"

definition getNeovimStatus :: "status_result io" where
  "getNeovimStatus =
     try_catch (and_then connect (\<lambda>nvim. collect_status))
       (\<lambda>error. ret (StatusText ''Error getting Neovim status''))"

section \<open>Outcomes and example sessions\<close>

definition fails_with_ValidationError :: "error + 'a \<Rightarrow> bool" where
  "fails_with_ValidationError r = (case r of Inl (NeovimValidationError m) \<Rightarrow> True | _ \<Rightarrow> False)"


definition fails_with_CommandError :: "error + 'a \<Rightarrow> bool" where
  "fails_with_CommandError r = (case r of Inl (NeovimCommandError c m) \<Rightarrow> True | _ \<Rightarrow> False)"

definition returns_normally :: "error + 'a \<Rightarrow> bool" where
  "returns_normally r = (case r of Inl e \<Rightarrow> False | Inr x \<Rightarrow> True)"

definition never_fails :: "world \<Rightarrow> rpc \<Rightarrow> bool" where
  \<comment> \<open>the request is served whenever it is sent\<close>
  "never_fails w r = (\<forall>n. faults w n r = None)"

definition always_fails :: "world \<Rightarrow> rpc \<Rightarrow> bool" where
  \<comment> \<open>the request throws whenever it is sent\<close>
  "always_fails w r = (\<forall>n. faults w n r \<noteq> None)"

definition requests :: "event list \<Rightarrow> rpc list" where
  \<comment> \<open>the requests that reached the editor\<close>
  "requests evs = concat (map (\<lambda>ev. case ev of Request r \<Rightarrow> [r] | Attach p \<Rightarrow> []) evs)"

definition example_world :: world where
  \<comment> \<open>a reachable editor with one five-line buffer, the cursor on line 1, no mark set, and
      a search count of zero for every pattern\<close>
  "example_world =
     \<lparr>NVIM_SOCKET_PATH = None, ALLOW_SHELL_COMMANDS = None,
      attach_throws = (\<lambda>p. None), faults = (\<lambda>n r. None),
      eval_answer = (\<lambda>e. if startsWith e ''searchcount''
                          then Obj [(''total'', Num 0), (''incomplete'', Num 0)] else Num 0),
      call_answer = (\<lambda>f args. Str []), lua_answer = (\<lambda>c. Str []),
      exec_errmsg = (\<lambda>c. []), errmsg = Str [],
      buffers = [\<lparr>buf_name = ''notes.txt'',
                  buf_lines = [''one'', ''two'', ''three'', ''four'', ''five'']\<rparr>],
      current = 0, win_cursor = (1, 0), mark_table = (\<lambda>m. None),
      editor_mode = ''n'', tab_number = 1, trace = []\<rparr>"

definition blank_socket_world :: world where
  \<comment> \<open>the same, configured with a socket path of one space\<close>
  "blank_socket_world = example_world\<lparr>NVIM_SOCKET_PATH := Some '' ''\<rparr>"


definition status_marks :: "error + status_result \<Rightarrow> (char \<times> jsval \<times> jsval) list option" where
  \<comment> \<open>the \<open>marks\<close> field of a returned status object\<close>
  "status_marks r = (case r of Inr (Status s) \<Rightarrow> Some (marks s) | _ \<Rightarrow> None)"

definition classified :: "error + 'a \<Rightarrow> bool" where
  \<comment> \<open>the outcome is a result or one of the three error classes, not a foreign exception\<close>
  "classified r = (case r of Inl (Uncaught t) \<Rightarrow> False | _ \<Rightarrow> True)"

definition raises_only :: "(error \<Rightarrow> bool) \<Rightarrow> 'a io \<Rightarrow> bool" where
  \<comment> \<open>whatever the computation throws satisfies \<open>P\<close>\<close>
  "raises_only P m = (\<forall>w e w'. m w = (Inl e, w') \<longrightarrow> P e)"

definition is_Uncaught :: "error \<Rightarrow> bool" where
  "is_Uncaught e = (case e of Uncaught t \<Rightarrow> True | _ \<Rightarrow> False)"


definition is_ValidationError :: "error \<Rightarrow> bool" where
  "is_ValidationError e = (case e of NeovimValidationError m \<Rightarrow> True | _ \<Rightarrow> False)"

definition is_ConnectionError :: "error \<Rightarrow> bool" where
  "is_ConnectionError e = (case e of NeovimConnectionError p c \<Rightarrow> True | _ \<Rightarrow> False)"

definition default_options :: searchOptions where
  \<comment> \<open>\<open>options = {}\<close>: every option off\<close>
  "default_options = \<lparr>ignoreCase = False, wholeWord = False, global = False, confirm = False\<rparr>"


definition only_trace :: "'a io \<Rightarrow> bool" where
  \<comment> \<open>the computation changes nothing of the world but the trace\<close>
  "only_trace m = (\<forall>w. \<exists>r t. m w = (r, w\<lparr>trace := t\<rparr>))"





definition serves :: "(world \<Rightarrow> bool) \<Rightarrow> 'a io \<Rightarrow> ('a \<Rightarrow> world \<Rightarrow> bool) \<Rightarrow> bool" where
  \<comment> \<open>from a world with \<open>P\<close> the computation returns a value with \<open>Q\<close>, and changes nothing of the
      world but the trace\<close>
  "serves P m Q = (\<forall>w. P w \<longrightarrow> (\<exists>x t. m w = (Inr x, w\<lparr>trace := t\<rparr>) \<and> Q x w))"







definition healthy :: "world \<Rightarrow> bool" where
  \<comment> \<open>the session can be established, the current buffer exists and no request fails\<close>
  "healthy w =
     (\<not> blank (socketPath w) \<and> attach_throws w (socketPath w) = None
      \<and> current w < length (buffers w) \<and> (\<forall>n r. faults w n r = None))"

section \<open>Strings\<close>

lemma trim_default_path: "trim ''/tmp/nvim'' = ''/tmp/nvim''"
  by (simp add: trim_def is_ws_def)

lemma blank_iff: "blank s \<longleftrightarrow> trim s = []"
  by (auto simp: blank_def trim_def)

lemma socketPath_nonempty: "socketPath w \<noteq> []"
  by (simp add: socketPath_def split: option.splits)

lemma mark_name_ok_iff: "mark_name_ok mark \<longleftrightarrow> (\<exists>c \<in> set lowercase. mark = [c])"
  by (auto simp: mark_name_ok_def split: list.splits)

lemma trim_Nil_iff: "trim s = [] \<longleftrightarrow> (\<forall>c \<in> set s. is_ws c)"
proof
  assume "trim s = []"
  then have all: "\<forall>c \<in> set (dropWhile is_ws s). is_ws c"
    by (simp add: trim_def dropWhile_eq_Nil_conv)
  have "dropWhile is_ws s = []"
  proof (rule ccontr)
    assume ne: "dropWhile is_ws s \<noteq> []"
    then have "\<not> is_ws (hd (dropWhile is_ws s))" by (rule hd_dropWhile)
    moreover from ne have "hd (dropWhile is_ws s) \<in> set (dropWhile is_ws s)" by simp
    ultimately show False using all by blast
  qed
  then show "\<forall>c \<in> set s. is_ws c" by (simp add: dropWhile_eq_Nil_conv)
next
  assume "\<forall>c \<in> set s. is_ws c"
  then show "trim s = []" by (auto simp: trim_def dest: set_dropWhileD)
qed

lemma shell_prefix_not_blank:
  "startsWith (normalizedCommand command) ''!'' \<Longrightarrow> \<not> blank command"
proof -
  assume a: "startsWith (normalizedCommand command) ''!''"
  have "CHR ''!'' \<in> set command"
  proof (cases "startsWith command '':''")
    case True
    with a have "take 1 (drop 1 command) = ''!''"
      by (simp add: normalizedCommand_def startsWith_def)
    then have "CHR ''!'' \<in> set (take 1 (drop 1 command))" by simp
    then show ?thesis by (meson in_set_dropD in_set_takeD)
  next
    case False
    with a have "take 1 command = ''!''"
      by (simp add: normalizedCommand_def startsWith_def)
    then have "CHR ''!'' \<in> set (take 1 command)" by simp
    then show ?thesis by (meson in_set_takeD)
  qed
  moreover have "\<not> is_ws CHR ''!''" by (simp add: is_ws_def)
  ultimately show ?thesis by (auto simp: blank_iff trim_Nil_iff)
qed

section \<open>What a computation can throw\<close>

lemma raises_onlyI: "(\<And>w e w'. m w = (Inl e, w') \<Longrightarrow> P e) \<Longrightarrow> raises_only P m"
  by (simp add: raises_only_def)






lemma raises_only_lift: "raises_only is_Uncaught (lift r)"
  by (auto simp: raises_only_def lift_def is_Uncaught_def split: sum.splits)






lemma example_world_facts:
  "socketPath example_world = ''/tmp/nvim''"
  "\<not> blank (socketPath example_world)"
  "attach_throws example_world p = None"
  "faults example_world n r = None"
  "ALLOW_SHELL_COMMANDS example_world = None"
  "trace example_world = []"
  by (simp_all add: example_world_def socketPath_def blank_def trim_def is_ws_def)


lemma blank_socket_world_facts:
  "socketPath blank_socket_world = '' ''"
  "blank (socketPath blank_socket_world)"
  by (simp_all add: blank_socket_world_def example_world_def socketPath_def blank_def
      trim_def is_ws_def)

lemma not_blank_examples:
  "\<not> blank ''ls''" "\<not> blank ''!ls''" "\<not> blank ''x''" "blank '' ''" "\<not> blank ''/tmp/nvim''"
  by (simp_all add: blank_def trim_def is_ws_def)

section \<open>\<open>connect\<close>\<close>

lemma connect_blank:
  "trim (socketPath w) = [] \<Longrightarrow>
   connect w = (Inl (NeovimValidationError ''Socket path cannot be empty''), w)"
  by (simp add: connect_def validateSocketPath_def and_then_def throw_def)

lemma connect_attach:
  "trim (socketPath w) \<noteq> [] \<Longrightarrow>
   connect w =
     (case attach_throws w (socketPath w) of
        Some t \<Rightarrow> Inl (NeovimConnectionError (socketPath w) (Uncaught t))
      | None \<Rightarrow> Inr (),
      w\<lparr>trace := trace w @ [Attach (socketPath w)]\<rparr>)"
  by (simp add: connect_def validateSocketPath_def and_then_def throw_def ret_def
      try_catch_def attach_def Let_def socketPath_nonempty split: option.splits)




section \<open>\<open>setMark\<close>\<close>

text \<open>
  C4, as amended. For every mark name that does not match \<open>[a-z]\<close>, \<open>setMark\<close> returns the
  text \<open>Invalid mark name (must be a-z)\<close> as its result, raising nothing, and leaves the
  world as it was: no transport attach and no request.
\<close>

theorem setMark_invalid_name:
  "\<not> mark_name_ok mark \<Longrightarrow>
   setMark mark line col w = (Inr ''Invalid mark name (must be a-z)'', w)"
  by (simp add: setMark_def ret_def)

theorem setMark_invalid_name_witness:
  "\<not> mark_name_ok ''1''
   \<and> setMark ''1'' 1 0 example_world = (Inr ''Invalid mark name (must be a-z)'', example_world)"
  using setMark_invalid_name [of "''1''" 1 0 example_world]
  by (simp add: mark_name_ok_def lowercase_def)

text \<open>
  C4 as stated fails: for the mark name \<open>1\<close> the call does not fail with a
  \<open>NeovimValidationError\<close>, it returns.
\<close>

theorem setMark_invalid_name_counterexample:
  "\<not> fails_with_ValidationError (fst (setMark ''1'' 1 0 example_world))
   \<and> returns_normally (fst (setMark ''1'' 1 0 example_world))"
  by (simp add: setMark_def ret_def mark_name_ok_def lowercase_def
      fails_with_ValidationError_def returns_normally_def)


text \<open>
  C1, at a failing input. In the example session the cursor is on line 1. \<open>setMark\<close> for
  mark \<open>a\<close>, line 5, column 3 sends \<open>mark a\<close> first and moves the cursor afterwards, so
  the mark stays on line 1; it reports \<open>Mark a set at line 5, column 3\<close>, and the status
  read afterwards has mark \<open>a\<close> at \<open>[1, 1]\<close>, not at \<open>[5, 3]\<close>.
\<close>

theorem setMark_then_status_example:
  "fst (setMark ''a'' 5 3 example_world) = Inr ''Mark a set at line 5, column 3''
   \<and> requests (trace (snd (setMark ''a'' 5 3 example_world)))
     = [Command ''mark a'', GetCurrentWin, WinSetCursor 5 3]
   \<and> status_marks (fst (getNeovimStatus (snd (setMark ''a'' 5 3 example_world))))
     = Some [(CHR ''a'', Num 1, Num 1)]"
  by code_simp

section \<open>\<open>editLines\<close> and \<open>getBufferContents\<close>\<close>

text \<open>
  C6, at a failing input. \<open>replaceAll\<close> with the two lines \<open>a\<close> and \<open>b\<close> removes every
  line, which leaves the editor's one empty line, and inserts the new lines before it:
  the contents read back have a third, empty line.
\<close>

theorem replaceAll_then_read_example:
  "fst (editLines 1 ''replaceAll'' (''a'' @ [newline] @ ''b'') example_world)
     = Inr ''Buffer completely replaced''
   \<and> requests (trace (snd (editLines 1 ''replaceAll'' (''a'' @ [newline] @ ''b'') example_world)))
     = [GetCurrentBuf, BufLineCount 0, BufSetLines 0 0 5 True [],
        BufSetLines 0 0 0 True [''a'', ''b'']]
   \<and> fst (getBufferContents None
            (snd (editLines 1 ''replaceAll'' (''a'' @ [newline] @ ''b'') example_world)))
     = Inr [(1, ''a''), (2, ''b''), (3, [])]"
  by code_simp


section \<open>The outer \<open>try\<close>/\<open>catch\<close> of the operations\<close>


lemma raises_only_connect:
  "raises_only (\<lambda>e. is_ValidationError e \<or> is_ConnectionError e) connect"
proof (rule raises_onlyI)
  fix w e w'
  assume a: "connect w = (Inl e, w')"
  show "is_ValidationError e \<or> is_ConnectionError e"
  proof (cases "trim (socketPath w) = []")
    case True
    with a show ?thesis by (auto simp: connect_blank is_ValidationError_def)
  next
    case False
    with a show ?thesis
      by (auto simp: connect_attach is_ConnectionError_def split: option.splits)
  qed
qed

lemma try_connect:
  "try_catch (and_then connect K) H w =
     (if trim (socketPath w) = []
      then H (NeovimValidationError ''Socket path cannot be empty'') w
      else case attach_throws w (socketPath w) of
             Some t \<Rightarrow> H (NeovimConnectionError (socketPath w) (Uncaught t))
                         (w\<lparr>trace := trace w @ [Attach (socketPath w)]\<rparr>)
           | None \<Rightarrow> try_catch (K ()) H (w\<lparr>trace := trace w @ [Attach (socketPath w)]\<rparr>))"
  by (simp add: connect_blank connect_attach try_catch_def and_then_def split: option.splits)








lemma classified_returns: "m w = (Inr x, w') \<Longrightarrow> classified (fst (m w))"
  by (simp add: classified_def)


lemma sendCommand_blank_socket:
  assumes "\<not> blank command" "blank (socketPath w)"
  shows "fst (sendCommand command w) = Inl (NeovimValidationError ''Socket path cannot be empty'')"
  using assms
  by (simp add: sendCommand_def try_connect blank_iff throw_def)






section \<open>Failures of \<open>getBufferContents\<close>\<close>














section \<open>Shell commands in \<open>sendCommand\<close>\<close>

lemma requests_simps:
  "requests [] = []"
  "requests (Attach p # evs) = requests evs"
  "requests (Request r # evs) = r # requests evs"
  "requests (xs @ ys) = requests xs @ requests ys"
  by (simp_all add: requests_def)

lemma sendCommand_shell_disabled:
  assumes "ALLOW_SHELL_COMMANDS w \<noteq> Some ''true''"
    and "startsWith (normalizedCommand command) ''!''"
  shows "sendCommand command w =
     (if blank (socketPath w)
      then (Inl (NeovimValidationError ''Socket path cannot be empty''), w)
      else ((case attach_throws w (socketPath w) of
               Some t \<Rightarrow> Inl (NeovimCommandError command
                   (''Failed to connect to Neovim at '' @ socketPath w
                    @ ''. Is Neovim running with --listen '' @ socketPath w @ ''?''))
             | None \<Rightarrow> Inr shell_disabled_message),
            w\<lparr>trace := trace w @ [Attach (socketPath w)]\<rparr>))"
proof -
  from assms(2) have "\<not> blank command" by (rule shell_prefix_not_blank)
  with assms show ?thesis
    unfolding sendCommand_def try_connect
    by (simp add: blank_iff throw_def ret_def try_catch_def message_or_unknown_def
        split: option.splits)
qed

text \<open>
  C5, as amended. When \<open>ALLOW_SHELL_COMMANDS\<close> is not \<open>true\<close> and the command, after one
  leading colon is dropped, starts with \<open>!\<close>, \<open>sendCommand\<close> sends no request to the editor,
  whatever else happens. It returns the disabled message when \<open>connect\<close> succeeds; it
  raises the validation error of \<open>connect\<close> when the socket path is blank, and a
  \<open>NeovimCommandError\<close> when the transport cannot attach. The handler of \<open>vim_command\<close>
  returns the disabled message for a command that starts with \<open>!\<close> without calling
  \<open>sendCommand\<close>: the world stays as it was.
\<close>

theorem shell_passthrough_disabled:
  assumes "ALLOW_SHELL_COMMANDS w \<noteq> Some ''true''"
    and "startsWith (normalizedCommand command) ''!''"
  shows "requests (trace (snd (sendCommand command w))) = requests (trace w)
    \<and> (\<not> blank (socketPath w) \<and> attach_throws w (socketPath w) = None \<longrightarrow>
         fst (sendCommand command w) = Inr shell_disabled_message)
    \<and> (blank (socketPath w) \<longrightarrow>
         fst (sendCommand command w) = Inl (NeovimValidationError ''Socket path cannot be empty''))
    \<and> (\<not> blank (socketPath w) \<and> attach_throws w (socketPath w) \<noteq> None \<longrightarrow>
         fails_with_CommandError (fst (sendCommand command w)))
    \<and> (startsWith command ''!'' \<longrightarrow> vim_command command w = (shell_disabled_message, w))"
  using assms
  by (auto simp: sendCommand_shell_disabled requests_simps vim_command_def
      fails_with_CommandError_def split: option.splits)

theorem shell_passthrough_disabled_witness:
  "ALLOW_SHELL_COMMANDS example_world \<noteq> Some ''true''
   \<and> startsWith (normalizedCommand ''!ls'') ''!''
   \<and> requests (trace (snd (sendCommand ''!ls'' example_world))) = []
   \<and> fst (sendCommand ''!ls'' example_world) = Inr shell_disabled_message
   \<and> vim_command ''!ls'' example_world = (shell_disabled_message, example_world)"
  using shell_passthrough_disabled [of example_world "''!ls''"]
  by (simp add: example_world_facts not_blank_examples startsWith_def normalizedCommand_def
      requests_simps)

text \<open>
  C5 as stated fails: with shell commands disabled and a socket path of one space,
  \<open>sendCommand\<close> on \<open>!ls\<close> does not return the disabled message, it raises.
\<close>

theorem shell_disabled_blank_socket_counterexample:
  "ALLOW_SHELL_COMMANDS blank_socket_world \<noteq> Some ''true''
   \<and> fst (sendCommand ''!ls'' blank_socket_world)
     = Inl (NeovimValidationError ''Socket path cannot be empty'')
   \<and> \<not> returns_normally (fst (sendCommand ''!ls'' blank_socket_world))"
  by (simp add: sendCommand_blank_socket not_blank_examples blank_socket_world_facts(2)
      returns_normally_def)
    (simp add: blank_socket_world_def example_world_def)

section \<open>\<open>searchInBuffer\<close>\<close>

lemma searchcount_not_getpos: "searchcount_expr p \<noteq> getpos_expr m"
  by (simp add: searchcount_expr_def getpos_expr_def)

lemma find_getpos_searchcount:
  "find (\<lambda>m. searchcount_expr p = getpos_expr m) lowercase = None"
  by (simp add: find_None_iff searchcount_not_getpos)

lemma mark_command_set:
  "mark_command ''set ignorecase'' = None" "mark_command ''set noignorecase'' = None"
  by (simp_all add: mark_command_def)

lemma never_fails_trace [simp]: "never_fails (w\<lparr>trace := t\<rparr>) r = never_fails w r"
  by (simp add: never_fails_def)

lemma await_request_ok:
  "never_fails w r \<Longrightarrow>
   await (request r serve) w = await serve (w\<lparr>trace := trace w @ [Request r]\<rparr>)"
  by (simp add: await_def request_def Let_def never_fails_def)

lemma await_command_ok:
  "never_fails w (Command c) \<Longrightarrow> mark_command c = None \<Longrightarrow>
   await (nvim_command c) w = (Inr (), w\<lparr>trace := trace w @ [Request (Command c)]\<rparr>)"
  by (simp add: nvim_command_def await_request_ok) (simp add: await_def)

lemma await_eval_ok:
  "never_fails w (Eval e) \<Longrightarrow> find (\<lambda>m. e = getpos_expr m) lowercase = None \<Longrightarrow>
   await (nvim_eval e) w = (Inr (eval_answer w e), w\<lparr>trace := trace w @ [Request (Eval e)]\<rparr>)"
  by (simp add: nvim_eval_def await_request_ok) (simp add: await_def)

text \<open>
  C8, as amended. For every pattern that is not blank (some character of it is not white
  space), in a session that \<open>connect\<close> establishes and in which the option command and
  the \<open>searchcount\<close> evaluation are served, if the editor counts zero matches then
  \<open>searchInBuffer\<close> returns the text \<open>No matches found for: \<close> followed by the pattern, as
  its result; the search command itself is not sent.
\<close>

theorem searchInBuffer_no_matches:
  assumes "\<not> blank pattern" "\<not> blank (socketPath w)" "attach_throws w (socketPath w) = None"
    and "never_fails w (Command (if ignoreCase options then ''set ignorecase''
                                 else ''set noignorecase''))"
    and "never_fails w (Eval (searchcount_expr (searchPattern pattern options)))"
    and "js_get (eval_answer w (searchcount_expr (searchPattern pattern options))) ''total''
           = Inr (Num 0)"
  shows "searchInBuffer pattern options w =
           (Inr (''No matches found for: '' @ pattern),
            w\<lparr>trace := trace w @ [Attach (socketPath w),
                 Request (Command (if ignoreCase options then ''set ignorecase''
                                   else ''set noignorecase'')),
                 Request (Eval (searchcount_expr (searchPattern pattern options)))]\<rparr>)"
proof (cases "ignoreCase options")
  case True
  with assms show ?thesis
    unfolding searchInBuffer_def try_connect
    by (simp add: blank_iff try_catch_def and_then_def await_command_ok await_eval_ok
        mark_command_set find_getpos_searchcount lift_def ret_def)
next
  case False
  with assms show ?thesis
    unfolding searchInBuffer_def try_connect
    by (simp add: blank_iff try_catch_def and_then_def await_command_ok await_eval_ok
        mark_command_set find_getpos_searchcount lift_def ret_def)
qed

lemma example_world_searchcount:
  "js_get (eval_answer example_world (searchcount_expr p)) ''total'' = Inr (Num 0)"
  by (simp add: example_world_def searchcount_expr_def startsWith_def)

theorem searchInBuffer_no_matches_witness:
  "\<not> blank ''x''
   \<and> fst (searchInBuffer ''x'' default_options example_world) = Inr ''No matches found for: x''
   \<and> requests (trace (snd (searchInBuffer ''x'' default_options example_world)))
     = [Command ''set noignorecase'', Eval (searchcount_expr ''x'')]"
  using searchInBuffer_no_matches [of "''x''" example_world default_options]
  by (simp add: example_world_facts not_blank_examples never_fails_def
      example_world_searchcount default_options_def searchPattern_def requests_simps)

text \<open>
  C8 as stated fails: the pattern of one space is not empty and no line of the example
  buffer has a space, yet \<open>searchInBuffer\<close> raises instead of reporting no matches.
\<close>

theorem searchInBuffer_space_counterexample:
  "'' '' \<noteq> []
   \<and> CHR '' '' \<notin> set (concat (current_lines example_world))
   \<and> fst (searchInBuffer '' '' default_options example_world)
     = Inl (NeovimValidationError ''Search pattern cannot be empty'')
   \<and> \<not> returns_normally (fst (searchInBuffer '' '' default_options example_world))"
  by (simp add: searchInBuffer_def not_blank_examples throw_def returns_normally_def
      current_lines_def example_world_def)

section \<open>\<open>searchAndReplace\<close>\<close>








section \<open>\<open>getNeovimStatus\<close>: best-effort aggregation\<close>

lemma only_traceI: "(\<And>w. \<exists>r t. m w = (r, w\<lparr>trace := t\<rparr>)) \<Longrightarrow> only_trace m"
  by (simp add: only_trace_def)

lemma only_traceD: "only_trace m \<Longrightarrow> \<exists>r t. m w = (r, w\<lparr>trace := t\<rparr>)"
  by (simp add: only_trace_def)

lemma world_trace_same: "\<exists>t. w = w\<lparr>trace := t\<rparr>"
  by (rule exI [of _ "trace w"]) simp

lemma trace_update_ex [simp]: "\<exists>t. w\<lparr>trace := a\<rparr> = w\<lparr>trace := t\<rparr>"
  by blast

lemma only_trace_ret: "only_trace (ret x)"
  by (simp add: only_trace_def ret_def world_trace_same)

lemma only_trace_throw: "only_trace (throw e)"
  by (simp add: only_trace_def throw_def world_trace_same)

lemma only_trace_lift: "only_trace (lift r)"
  by (cases r) (simp_all add: only_trace_def lift_def world_trace_same)

lemma only_trace_and_then:
  assumes "only_trace m" and "\<And>x. only_trace (f x)"
  shows "only_trace (and_then m f)"
proof (rule only_traceI)
  fix w
  from only_traceD [OF assms(1), of w]
  obtain r t where m: "m w = (r, w\<lparr>trace := t\<rparr>)" by blast
  show "\<exists>r t. and_then m f w = (r, w\<lparr>trace := t\<rparr>)"
  proof (cases r)
    case (Inl e)
    with m show ?thesis by (auto simp: and_then_def)
  next
    case (Inr x)
    from only_traceD [OF assms(2) [of x], of "w\<lparr>trace := t\<rparr>"]
    obtain r' t' where "f x (w\<lparr>trace := t\<rparr>) = (r', w\<lparr>trace := t'\<rparr>)"
      by auto
    with m Inr show ?thesis by (auto simp: and_then_def)
  qed
qed

lemma only_trace_try_catch:
  assumes "only_trace m" and "\<And>e. only_trace (h e)"
  shows "only_trace (try_catch m h)"
proof (rule only_traceI)
  fix w
  from only_traceD [OF assms(1), of w]
  obtain r t where m: "m w = (r, w\<lparr>trace := t\<rparr>)" by blast
  show "\<exists>r t. try_catch m h w = (r, w\<lparr>trace := t\<rparr>)"
  proof (cases r)
    case (Inl e)
    from only_traceD [OF assms(2) [of e], of "w\<lparr>trace := t\<rparr>"]
    obtain r' t' where "h e (w\<lparr>trace := t\<rparr>) = (r', w\<lparr>trace := t'\<rparr>)"
      by auto
    with m Inl show ?thesis by (auto simp: try_catch_def)
  next
    case (Inr x)
    with m show ?thesis by (auto simp: try_catch_def)
  qed
qed

lemma only_trace_await_eval: "only_trace (await (nvim_eval e))"
  by (rule only_traceI)
    (auto simp: await_def nvim_eval_def request_def Let_def split: option.splits)

lemma only_trace_await_lua: "only_trace (await (nvim_lua c))"
  by (rule only_traceI)
    (auto simp: await_def nvim_lua_def request_def Let_def split: option.splits)

lemma only_trace_marks_loop: "only_trace (marks_loop ms acc)"
  by (induction ms arbitrary: acc)
    (auto intro!: only_trace_ret only_trace_and_then only_trace_try_catch only_trace_await_eval
      only_trace_lift)

lemma only_trace_registers_loop: "only_trace (registers_loop rs acc)"
  by (induction rs arbitrary: acc)
    (auto intro!: only_trace_ret only_trace_and_then only_trace_try_catch only_trace_await_eval
      simp: Let_def)

lemma only_trace_selection_fallback: "only_trace selection_fallback"
  unfolding selection_fallback_def
  by (auto intro!: only_trace_ret only_trace_and_then only_trace_try_catch only_trace_await_eval
      only_trace_lift split: jsval.splits prod.splits)

lemma only_trace_get_visualSelection: "only_trace get_visualSelection"
  unfolding get_visualSelection_def
  by (auto intro!: only_trace_ret only_trace_and_then only_trace_try_catch only_trace_await_lua
      only_trace_selection_fallback)

lemma only_trace_get_lspInfo: "only_trace get_lspInfo"
  unfolding get_lspInfo_def
  by (auto intro!: only_trace_ret only_trace_and_then only_trace_try_catch only_trace_await_eval
      only_trace_lift split: jsval.splits)

lemma only_trace_get_pluginInfo: "only_trace get_pluginInfo"
  unfolding get_pluginInfo_def
  by (auto intro!: only_trace_ret only_trace_and_then only_trace_try_catch only_trace_await_eval
      simp: Let_def)













lemma always_fails_trace [simp]: "always_fails (w\<lparr>trace := t\<rparr>) r = always_fails w r"
  by (simp add: always_fails_def)














lemma winlayout_not_getpos: "find (\<lambda>m. ''winlayout()'' = getpos_expr m) lowercase = None"
  by (simp add: find_None_iff getpos_expr_def)



lemma serves_if:
  "(b \<Longrightarrow> serves P m Q) \<Longrightarrow> (\<not> b \<Longrightarrow> serves P n Q) \<Longrightarrow> serves P (if b then m else n) Q"
  by simp












section \<open>Healthy sessions: where the mark lands and what \<open>replaceAll\<close> leaves\<close>

text \<open>
  The examples of \<open>setMark\<close> and \<open>replaceAll\<close> above are not accidents of their inputs. In every healthy
  session \<open>setMark\<close> reports success and leaves the mark on the line the cursor had
  before the call, at column 0, whatever \<open>line\<close> and \<open>col\<close> are; and \<open>replaceAll\<close>
  leaves the new lines followed by one empty line.
\<close>

lemma example_world_healthy: "healthy example_world"
  unfolding healthy_def
  using example_world_facts(2-4) by (simp add: example_world_def)

lemma healthy_never_fails: "healthy w \<Longrightarrow> never_fails w r"
  by (simp add: healthy_def never_fails_def)

lemma mark_command_mark:
  "c \<in> set lowercase \<Longrightarrow> mark_command (CHR ''m'' # CHR ''a'' # CHR ''r'' # CHR ''k'' # CHR '' '' # [c]) = Some c"
  by (simp add: mark_command_def)

lemma setMark_marks_cursor_line:
  assumes "c \<in> set lowercase" and "healthy w"
  shows "fst (setMark [c] line col w)
           = Inr (''Mark '' @ [c] @ '' set at line '' @ show_int line
                  @ '', column '' @ show_int col)"
    and "mark_table (snd (setMark [c] line col w)) c = Some (fst (win_cursor w), 0)"
    and "getpos c (snd (setMark [c] line col w))
           = Arr [Num 0, Num (fst (win_cursor w)), Num 1, Num 0]"
proof -
  from assms(2) have h: "\<not> blank (socketPath w)" "attach_throws w (socketPath w) = None"
    "\<And>n r. faults w n r = None"
    by (simp_all add: healthy_def)
  from assms(1) have ok: "mark_name_ok [c]" by (simp add: mark_name_ok_def)
  have run: "setMark [c] line col w =
      (Inr (''Mark '' @ [c] @ '' set at line '' @ show_int line @ '', column '' @ show_int col),
       snd (win_set_cursor line col
         (w\<lparr>mark_table := (mark_table w)(c \<mapsto> (fst (win_cursor w), 0)),
            trace := trace w @ [Attach (socketPath w), Request (Command (''mark '' @ [c])),
                                 Request GetCurrentWin]\<rparr>)))"
    using ok h assms(1)
    unfolding setMark_def try_connect
    by (simp add: blank_iff try_catch_def and_then_def await_def nvim_command_def
        nvim_window_def request_def Let_def mark_command_mark set_window_cursor_def ret_def)
  show "fst (setMark [c] line col w)
           = Inr (''Mark '' @ [c] @ '' set at line '' @ show_int line
                  @ '', column '' @ show_int col)"
    by (simp add: run)
  show m: "mark_table (snd (setMark [c] line col w)) c = Some (fst (win_cursor w), 0)"
    by (simp add: run win_set_cursor_def request_def Let_def h)
  then show "getpos c (snd (setMark [c] line col w))
           = Arr [Num 0, Num (fst (win_cursor w)), Num 1, Num 0]"
    by (simp add: getpos_def)
qed

lemma split_on_nonempty: "split_on c s \<noteq> []"
  by (induction s) (auto split: list.splits)

lemma split_on_no_separator: "l \<in> set (split_on c s) \<Longrightarrow> c \<notin> set l"
  by (induction s arbitrary: l) (auto split: list.splits if_splits)

lemma set_lines_remove_all: "set_lines 0 (int (length ls)) True [] ls = Inr [[]]"
  by (simp add: set_lines_def normalize_index_def Let_def)

lemma set_lines_insert_front:
  assumes "\<forall>l \<in> set new. newline \<notin> set l" and "new \<noteq> []"
  shows "set_lines 0 0 True new ls = Inr (new @ ls)"
  using assms by (auto simp: set_lines_def normalize_index_def Let_def)

lemma replaceAll_leaves_empty_line:
  assumes "healthy w"
  shows "fst (editLines startLine ''replaceAll'' newText w) = Inr ''Buffer completely replaced''"
    and "fst (getBufferContents None (snd (editLines startLine ''replaceAll'' newText w)))
           = Inr (lineMap (split_on newline newText @ [[]]))"
proof -
  from assms have h: "\<not> blank (socketPath w)" "attach_throws w (socketPath w) = None"
    "current w < length (buffers w)" "\<And>n r. faults w n r = None"
    by (simp_all add: healthy_def)
  define new where "new = split_on newline newText"
  have ins: "set_lines 0 0 True new [[]] = Inr (new @ [[]])"
    unfolding new_def
    by (rule set_lines_insert_front) (auto dest: split_on_no_separator simp: split_on_nonempty)
  define b where "b = current w"
  define ls where "ls = buf_lines (buffers w ! b)"
  have run: "editLines startLine ''replaceAll'' newText w =
      (Inr ''Buffer completely replaced'',
       w\<lparr>trace := trace w @ [Attach (socketPath w), Request GetCurrentBuf,
            Request (BufLineCount b), Request (BufSetLines b 0 (int (length ls)) True []),
            Request (BufSetLines b 0 0 True new)],
         buffers := (buffers w)[b := (buffers w ! b)\<lparr>buf_lines := new @ [[]]\<rparr>]\<rparr>)"
    using h ins
    unfolding editLines_def try_connect
    by (simp add: blank_iff try_catch_def and_then_def await_def nvim_buffer_def
        buffer_length_def buffer_remove_def buffer_insert_def buffer_setLines_def on_buffer_def
        request_def Let_def ret_def set_lines_remove_all new_def [symmetric] b_def [symmetric]
        ls_def [symmetric])
  show "fst (editLines startLine ''replaceAll'' newText w) = Inr ''Buffer completely replaced''"
    by (simp add: run)
  show "fst (getBufferContents None (snd (editLines startLine ''replaceAll'' newText w)))
           = Inr (lineMap (split_on newline newText @ [[]]))"
    using h
    unfolding run getBufferContents_def try_connect
    by (simp add: blank_iff socketPath_def try_catch_def and_then_def await_def nvim_buffer_def
        buffer_lines_def on_buffer_def request_def Let_def ret_def new_def b_def)
qed

end
